theory Spec2Isabelle
  imports Main "HOL-Library.Word"
begin

unbundle bit_operations_syntax

text \<open>
  Package \<^verbatim>\<open>options\<close> of cybozu-go/options (file \<^verbatim>\<open>options.go\<close>): the generic type
  \<^verbatim>\<open>Option[T]\<close>, its constructors and accessors, \<^verbatim>\<open>Map\<close>, the JSON and SQL adapters and
  \<^verbatim>\<open>Equal\<close>. Each function of the package is one definition with the name it has in the
  source. The functions of the standard library that the package calls (encoding/json,
  database/sql/driver, reflect, fmt) are parameters of these definitions; the later
  sections give them on a few payload types, following their documentation, so that the
  definitions can be run.
\<close>

section \<open>Values of the Go run time that the package exchanges with its callers\<close>

text \<open>
  Go's \<^verbatim>\<open>error\<close> values as the package builds them. \<^verbatim>\<open>fmt.Errorf\<close> with a format
  without \<^verbatim>\<open>%w\<close> gives an error that only has its message (\<open>Errorf\<close>); with a format
  ending in \<^verbatim>\<open>: %w\<close> it gives an error that keeps the formatted prefix and the wrapped
  error (\<open>Wrapf\<close>). \<open>Foreign\<close> is an error made by another package (encoding/json,
  database/sql/driver), known by its message only. A returned \<^verbatim>\<open>nil\<close> error is \<open>None\<close> of
  \<open>error option\<close>.
\<close>

datatype error =
    Errorf string
  | Wrapf string error
  | Foreign string

text \<open>The method \<^verbatim>\<open>Error()\<close>: the message of an error.\<close>

fun error_Error :: "error \<Rightarrow> string" where
  "error_Error (Errorf m) = m"
| "error_Error (Wrapf prefix e) = prefix @ error_Error e"
| "error_Error (Foreign m) = m"

text \<open>\<^verbatim>\<open>errors.Unwrap\<close>: the error a \<^verbatim>\<open>%w\<close> error wraps, \<^verbatim>\<open>nil\<close> for the others.\<close>

fun errors_Unwrap :: "error \<Rightarrow> error option" where
  "errors_Unwrap (Wrapf prefix e) = Some e"
| "errors_Unwrap (Errorf m) = None"
| "errors_Unwrap (Foreign m) = None"

text \<open>A call either returns or panics with the value given to \<^verbatim>\<open>panic\<close>.\<close>

datatype panic = Panic error

text \<open>
  A value of the interface type \<^verbatim>\<open>any\<close>: the nil interface, or a dynamic value of the
  universe \<open>'v\<close>.
\<close>

datatype 'v any = AnyNil | AnyVal 'v

section \<open>The type Option[T]\<close>

text \<open>
  \<^verbatim>\<open>type Option[T any] struct { value T; present bool }\<close>. What Go derives from the type
  parameter \<open>T\<close> is passed to the functions that use it: the zero value of \<open>T\<close> (\<open>z\<close>),
  and the rendering of a \<open>T\<close> by the verb \<^verbatim>\<open>%T\<close> of package fmt (\<open>fmtT\<close>, applied to the
  stored value as the source does). The receiver \<^verbatim>\<open>o\<close> is written \<open>opt\<close>. Three names
  of the source are taken already: \<^verbatim>\<open>None\<close> is \<open>None_Option\<close> here, the method \<^verbatim>\<open>String\<close>
  is \<open>String_Option\<close>, and the free function \<^verbatim>\<open>Pointer\<close>, which shares its name with the
  method, is \<open>Pointer_func\<close>.
\<close>

record 'a Option =
  "value" :: 'a
  present :: bool

text \<open>The invariant the source states beside the field: \<^verbatim>\<open>!present => value == zero\<close>.\<close>

definition invariant :: "'a \<Rightarrow> 'a Option \<Rightarrow> bool" where
  "invariant z opt = (\<not> present opt \<longrightarrow> value opt = z)"

definition New :: "'a \<Rightarrow> 'a Option" where
  "New v = \<lparr>value = v, present = True\<rparr>"

text \<open>\<^verbatim>\<open>None[T]()\<close> returns the composite literal \<^verbatim>\<open>Option[T]{}\<close>: both fields zero.\<close>

definition None_Option :: "'a \<Rightarrow> 'a Option" where
  "None_Option z = \<lparr>value = z, present = False\<rparr>"

text \<open>A pointer \<^verbatim>\<open>*T\<close> is \<open>None\<close> when nil and \<open>Some v\<close> when it points at \<open>v\<close>.\<close>

definition FromPointer :: "'a \<Rightarrow> 'a option \<Rightarrow> 'a Option" where
  "FromPointer z ptr = (case ptr of None \<Rightarrow> None_Option z | Some v \<Rightarrow> New v)"

definition FromTuple :: "'a \<Rightarrow> 'a \<Rightarrow> bool \<Rightarrow> 'a Option" where
  "FromTuple z v p = (if p then New v else None_Option z)"

definition IsPresent :: "'a Option \<Rightarrow> bool" where
  "IsPresent opt = present opt"

definition IsNone :: "'a Option \<Rightarrow> bool" where
  "IsNone opt = (\<not> present opt)"

text \<open>
  \<^verbatim>\<open>Unwrap\<close> returns the value or panics with
  \<^verbatim>\<open>fmt.Errorf("Option[%T].Unwrap: unwrapping None value", o.value)\<close>.
\<close>

definition Unwrap :: "('a \<Rightarrow> string) \<Rightarrow> 'a Option \<Rightarrow> panic + 'a" where
  "Unwrap fmtT opt =
     (if present opt then Inr (value opt)
      else Inl (Panic (Errorf (''Option['' @ fmtT (value opt) @ ''].Unwrap: unwrapping None value''))))"

definition UnwrapOr :: "'a Option \<Rightarrow> 'a \<Rightarrow> 'a" where
  "UnwrapOr opt defaultValue = (if present opt then value opt else defaultValue)"

text \<open>\<^verbatim>\<open>UnwrapOrZero\<close> is the single statement \<^verbatim>\<open>return o.value\<close>; it reads no flag.\<close>

definition UnwrapOrZero :: "'a Option \<Rightarrow> 'a" where
  "UnwrapOrZero opt = value opt"

text \<open>
  \<^verbatim>\<open>Pointer\<close> returns \<^verbatim>\<open>&o.value\<close> when present and nil otherwise. Read through, the
  pointer gives the stored value. \<open>Pointer_store\<close> is an assignment \<^verbatim>\<open>*o.Pointer() = w\<close>
  by a caller: it reaches the field only when the pointer is not nil, and dereferencing
  the nil pointer panics without touching the receiver.
\<close>

definition Pointer :: "'a Option \<Rightarrow> 'a option" where
  "Pointer opt = (if present opt then Some (value opt) else None)"

definition Pointer_store :: "'a Option \<Rightarrow> 'a \<Rightarrow> 'a Option option" where
  "Pointer_store opt w = (if present opt then Some (opt\<lparr>value := w\<rparr>) else None)"

text \<open>
  \<^verbatim>\<open>Map(o, f)\<close>. The argument \<open>f\<close> is a Go function: it may read and change the state
  of the program (\<open>'s\<close>), and it may panic or never return (\<open>None\<close>). A call of \<open>Map\<close>
  returns the new option and the state \<open>f\<close> left, or does not return when \<open>f\<close> does not.
\<close>

definition Map :: "'b \<Rightarrow> 'a Option \<Rightarrow> ('a \<Rightarrow> 's \<Rightarrow> ('b \<times> 's) option) \<Rightarrow> 's \<Rightarrow> ('b Option \<times> 's) option" where
  "Map zB opt f s =
     (if present opt then
        (case f (value opt) s of
           None \<Rightarrow> None
         | Some (b, s') \<Rightarrow> Some (New b, s'))
      else Some (None_Option zB, s))"

text \<open>\<^verbatim>\<open>String\<close> and \<^verbatim>\<open>GoString\<close>; \<open>sprint\<close> is \<^verbatim>\<open>fmt.Sprint\<close> and \<open>gofmt\<close> the verb \<^verbatim>\<open>%#v\<close>.\<close>

definition String_Option :: "('a \<Rightarrow> string) \<Rightarrow> 'a Option \<Rightarrow> string" where
  "String_Option sprint opt = (if present opt then sprint (value opt) else [])"

definition GoString :: "('a \<Rightarrow> string) \<Rightarrow> ('a \<Rightarrow> string) \<Rightarrow> 'a Option \<Rightarrow> string" where
  "GoString gofmt fmtT opt =
     (if present opt then ''options.New('' @ gofmt (value opt) @ '')''
      else ''options.None['' @ fmtT (value opt) @ '']()'')"

section \<open>JSON\<close>

text \<open>
  What package encoding/json documents for a pointer \<^verbatim>\<open>*T\<close>, the only way this package
  calls it. The codec of \<open>T\<close> itself is a parameter: \<open>marshalT v\<close> is \<^verbatim>\<open>json.Marshal(v)\<close>
  and \<open>unmarshalT bytes\<close> is \<^verbatim>\<open>json.Unmarshal(bytes, &v)\<close> into a freshly allocated \<open>v\<close>.

  Marshal encodes a pointer as the value it points to, and a nil pointer as the JSON
  value \<^verbatim>\<open>null\<close>. Unmarshal into a pointer first handles the JSON literal \<^verbatim>\<open>null\<close>, for
  which it sets the pointer to nil; for every other input it allocates a new value when
  the pointer is nil and decodes into the value pointed at. The literal may stand between
  JSON white space (space, tab, line feed, carriage return).
\<close>

definition json_space :: "char \<Rightarrow> bool" where
  "json_space c = (c = CHR '' '' \<or> c = CHR 0x09 \<or> c = CHR 0x0A \<or> c = CHR 0x0D)"

definition json_trim :: "string \<Rightarrow> string" where
  "json_trim bytes = rev (dropWhile json_space (rev (dropWhile json_space bytes)))"

definition json_null :: "string \<Rightarrow> bool" where
  "json_null bytes = (json_trim bytes = ''null'')"

definition json_Marshal_pointer :: "('a \<Rightarrow> error + string) \<Rightarrow> 'a option \<Rightarrow> error + string" where
  "json_Marshal_pointer marshalT ptr =
     (case ptr of None \<Rightarrow> Inr ''null'' | Some v \<Rightarrow> marshalT v)"

definition json_Unmarshal_pointer :: "(string \<Rightarrow> error + 'a) \<Rightarrow> string \<Rightarrow> error + 'a option" where
  "json_Unmarshal_pointer unmarshalT bytes =
     (if json_null bytes then Inr None
      else (case unmarshalT bytes of Inl err \<Rightarrow> Inl err | Inr v \<Rightarrow> Inr (Some v)))"

text \<open>\<^verbatim>\<open>MarshalJSON\<close>: \<^verbatim>\<open>return json.Marshal(o.Pointer())\<close>.\<close>

definition MarshalJSON :: "('a \<Rightarrow> error + string) \<Rightarrow> 'a Option \<Rightarrow> error + string" where
  "MarshalJSON marshalT opt = json_Marshal_pointer marshalT (Pointer opt)"

text \<open>
  \<^verbatim>\<open>UnmarshalJSON\<close> has a pointer receiver: the model returns the receiver after the call
  and the returned error. The local \<^verbatim>\<open>var p *T\<close> starts nil.
\<close>

definition UnmarshalJSON ::
  "'a \<Rightarrow> ('a \<Rightarrow> string) \<Rightarrow> (string \<Rightarrow> error + 'a) \<Rightarrow> 'a Option \<Rightarrow> string \<Rightarrow> 'a Option \<times> error option" where
  "UnmarshalJSON z fmtT unmarshalT opt bytes =
     (case json_Unmarshal_pointer unmarshalT bytes of
        Inl err \<Rightarrow> (opt, Some (Wrapf (''Option['' @ fmtT (value opt) @ ''].UnmarshalJSON: '') err))
      | Inr p \<Rightarrow> (FromPointer z p, None))"

section \<open>SQL\<close>

text \<open>
  \<^verbatim>\<open>Value\<close>: the stored value as a \<^verbatim>\<open>driver.Value\<close> (an \<^verbatim>\<open>any\<close>), or nil. \<open>box\<close> is the
  conversion of a \<open>T\<close> to the interface type.
\<close>

definition Value :: "('a \<Rightarrow> 'v any) \<Rightarrow> 'a Option \<Rightarrow> 'v any \<times> error option" where
  "Value box opt = (if present opt then (box (value opt), None) else (AnyNil, None))"

text \<open>
  A type assertion \<^verbatim>\<open>av.(T)\<close> in its two-result form: on the nil interface it fails for
  every \<open>T\<close>; on a dynamic value \<open>assertT\<close> decides (the dynamic type is \<open>T\<close>, or
  implements it) and gives the value as a \<open>T\<close>.
\<close>

definition type_assert :: "('v \<Rightarrow> 'a option) \<Rightarrow> 'v any \<Rightarrow> 'a option" where
  "type_assert assertT av = (case av of AnyNil \<Rightarrow> None | AnyVal d \<Rightarrow> assertT d)"

text \<open>
  \<^verbatim>\<open>Scan\<close>, with its pointer receiver returned as for \<open>UnmarshalJSON\<close>. \<open>ConvertValue\<close> is
  \<^verbatim>\<open>driver.DefaultParameterConverter.ConvertValue\<close> and \<open>gofmt\<close> the verb \<^verbatim>\<open>%#v\<close>. The
  sources a caller may pass are the universe \<open>'v\<close>, the values the converter returns
  (a \<^verbatim>\<open>driver.Value\<close>) the universe \<open>'w\<close>.
\<close>

definition Scan ::
  "'a \<Rightarrow> ('a \<Rightarrow> string) \<Rightarrow> ('w any \<Rightarrow> string) \<Rightarrow> ('v any \<Rightarrow> error + 'w any) \<Rightarrow> ('w \<Rightarrow> 'a option)
     \<Rightarrow> 'a Option \<Rightarrow> 'v any \<Rightarrow> 'a Option \<times> error option" where
  "Scan z fmtT gofmt ConvertValue assertT opt src =
     (if src = AnyNil then (None_Option z, None)
      else (case ConvertValue src of
              Inl err \<Rightarrow>
                (opt, Some (Wrapf (''Option['' @ fmtT (value opt)
                                     @ ''].Scan: failed to convert value from SQL driver: '') err))
            | Inr av \<Rightarrow>
                (case type_assert assertT av of
                   None \<Rightarrow>
                     (opt, Some (Errorf (''Option['' @ fmtT (value opt)
                                           @ ''].Scan: failed to convert value '' @ gofmt av
                                           @ '' to type '' @ fmtT (value opt))))
                 | Some v \<Rightarrow> (New v, None))))"

section \<open>Equality\<close>

text \<open>\<^verbatim>\<open>Equal\<close>; \<open>deq\<close> is \<^verbatim>\<open>reflect.DeepEqual\<close> on two values of type \<open>T\<close>.\<close>

definition Equal :: "('a \<Rightarrow> 'a \<Rightarrow> bool) \<Rightarrow> 'a Option \<Rightarrow> 'a Option \<Rightarrow> bool" where
  "Equal deq opt other =
     (if present opt \<noteq> present other then False
      else if \<not> present opt then True
      else deq (value opt) (value other))"

text \<open>The free function \<^verbatim>\<open>Pointer\<close>: \<^verbatim>\<open>return o.Pointer()\<close>.\<close>

definition Pointer_func :: "'a Option \<Rightarrow> 'a option" where
  "Pointer_func opt = Pointer opt"

section \<open>Payload types used to run the model\<close>

subsection \<open>The payload types \<^verbatim>\<open>bool\<close> and \<^verbatim>\<open>[]bool\<close> and their JSON form\<close>

text \<open>
  A slice is nil or holds elements; the empty slice \<open>Slice []\<close> is not nil. encoding/json
  encodes a slice as a JSON array and a nil slice as the JSON value \<^verbatim>\<open>null\<close>. Decoding an
  array gives a slice that is not nil; the literal \<^verbatim>\<open>null\<close> leaves a bool element at its
  zero value \<^verbatim>\<open>false\<close>. Every failure of the decoder (a syntax error or a value of another
  JSON type) is one error here; no statement below depends on its message.
\<close>

datatype 'a slice = NilSlice | Slice "'a list"

definition json_failed :: error where
  "json_failed = Foreign ''json: cannot unmarshal the input into the Go value''"

fun join_commas :: "string list \<Rightarrow> string" where
  "join_commas [] = []"
| "join_commas [x] = x"
| "join_commas (x # y # ys) = x @ '','' @ join_commas (y # ys)"

definition marshal_bool :: "bool \<Rightarrow> string" where
  "marshal_bool b = (if b then ''true'' else ''false'')"

definition marshal_bools :: "bool slice \<Rightarrow> error + string" where
  "marshal_bools v =
     (case v of
        NilSlice \<Rightarrow> Inr ''null''
      | Slice bs \<Rightarrow> Inr (''['' @ join_commas (map marshal_bool bs) @ '']''))"

text \<open>\<open>split_commas acc s\<close>: the pieces of \<open>s\<close> between commas, \<open>acc\<close> the piece being read, reversed.\<close>

fun split_commas :: "string \<Rightarrow> string \<Rightarrow> string list" where
  "split_commas acc [] = [rev acc]"
| "split_commas acc (c # cs) =
     (if c = CHR '','' then rev acc # split_commas [] cs else split_commas (c # acc) cs)"

definition unmarshal_bool_element :: "string \<Rightarrow> bool option" where
  "unmarshal_bool_element item =
     (if json_trim item = ''true'' then Some True
      else if json_trim item = ''false'' then Some False
      else if json_trim item = ''null'' then Some False
      else None)"

definition unmarshal_bool :: "string \<Rightarrow> error + bool" where
  "unmarshal_bool bytes =
     (case unmarshal_bool_element bytes of None \<Rightarrow> Inl json_failed | Some b \<Rightarrow> Inr b)"

definition unmarshal_bools :: "string \<Rightarrow> error + bool slice" where
  "unmarshal_bools bytes =
     (let t = json_trim bytes in
      if t = ''null'' then Inr NilSlice
      else if 2 \<le> length t \<and> hd t = CHR ''['' \<and> last t = CHR '']'' then
        (let body = butlast (tl t) in
         if json_trim body = [] then Inr (Slice [])
         else (case those (map unmarshal_bool_element (split_commas [] body)) of
                 None \<Rightarrow> Inl json_failed
               | Some bs \<Rightarrow> Inr (Slice bs)))
      else Inl json_failed)"

text \<open>
  \<^verbatim>\<open>reflect.DeepEqual\<close> on two \<^verbatim>\<open>[]bool\<close>: two slices are deeply equal when both are nil
  or both are not, their lengths agree, and they start at the same entry of one array or
  their elements are deeply equal in turn. Bools are compared with \<^verbatim>\<open>==\<close>, and slices that
  share their array hold equal bools, so the elementwise test decides alone.
\<close>

definition DeepEqual_bools :: "bool slice \<Rightarrow> bool slice \<Rightarrow> bool" where
  "DeepEqual_bools a b =
     (case (a, b) of
        (NilSlice, NilSlice) \<Rightarrow> True
      | (Slice xs, Slice ys) \<Rightarrow> length xs = length ys \<and> list_all2 (=) xs ys
      | _ \<Rightarrow> False)"

definition fmtT_bools :: "bool slice \<Rightarrow> string" where
  "fmtT_bools v = ''[]bool''"

subsection \<open>A universe of Go values and \<^verbatim>\<open>reflect.DeepEqual\<close> on it\<close>

text \<open>
  A \<^verbatim>\<open>float64\<close> is its IEEE 754 bit pattern. Go's \<^verbatim>\<open>==\<close> on floats is the IEEE
  comparison: a NaN (exponent all ones, fraction not zero) equals nothing, itself included;
  the two zeros are equal; otherwise the patterns decide.
\<close>

definition float64_NaN :: "64 word \<Rightarrow> bool" where
  "float64_NaN w =
     (w AND 0x7FF0000000000000 = 0x7FF0000000000000 \<and> w AND 0x000FFFFFFFFFFFFF \<noteq> 0)"

definition float64_zero :: "64 word \<Rightarrow> bool" where
  "float64_zero w = (w AND 0x7FFFFFFFFFFFFFFF = 0)"

definition float64_eq :: "64 word \<Rightarrow> 64 word \<Rightarrow> bool" where
  "float64_eq a b =
     (\<not> float64_NaN a \<and> \<not> float64_NaN b \<and> (a = b \<or> (float64_zero a \<and> float64_zero b)))"

text \<open>
  Values without interfaces, slices and maps: scalars, arrays, structs (their fields in
  order), pointers (nil, or an address and the value there) and funcs (nil, or some
  function). The two arguments of \<open>DeepEqual\<close> are values of one static type, as the two
  payloads of \<open>Equal\<close> are. As package reflect documents it: arrays are deeply equal when
  their corresponding elements are; structs when their corresponding fields are, exported
  or not; funcs only when both are nil; pointers when they are equal under \<^verbatim>\<open>==\<close> or point
  to deeply equal values; numbers, bools and strings when they are equal under \<^verbatim>\<open>==\<close>.
\<close>

datatype gvalue =
    GBool bool
  | GInt64 "64 word"
  | GFloat64 "64 word"
  | GString string
  | GArray "gvalue list"
  | GStruct "gvalue list"
  | GNilPointer
  | GPointer nat gvalue
  | GNilFunc
  | GFunc nat

fun DeepEqual :: "gvalue \<Rightarrow> gvalue \<Rightarrow> bool"
  and DeepEqual_all :: "gvalue list \<Rightarrow> gvalue list \<Rightarrow> bool" where
  "DeepEqual (GBool a) w = (case w of GBool b \<Rightarrow> a = b | _ \<Rightarrow> False)"
| "DeepEqual (GInt64 a) w = (case w of GInt64 b \<Rightarrow> a = b | _ \<Rightarrow> False)"
| "DeepEqual (GFloat64 a) w = (case w of GFloat64 b \<Rightarrow> float64_eq a b | _ \<Rightarrow> False)"
| "DeepEqual (GString a) w = (case w of GString b \<Rightarrow> a = b | _ \<Rightarrow> False)"
| "DeepEqual (GArray xs) w = (case w of GArray ys \<Rightarrow> DeepEqual_all xs ys | _ \<Rightarrow> False)"
| "DeepEqual (GStruct xs) w = (case w of GStruct ys \<Rightarrow> DeepEqual_all xs ys | _ \<Rightarrow> False)"
| "DeepEqual GNilPointer w = (case w of GNilPointer \<Rightarrow> True | _ \<Rightarrow> False)"
| "DeepEqual (GPointer a x) w = (case w of GPointer b y \<Rightarrow> a = b \<or> DeepEqual x y | _ \<Rightarrow> False)"
| "DeepEqual GNilFunc w = (case w of GNilFunc \<Rightarrow> True | _ \<Rightarrow> False)"
| "DeepEqual (GFunc f) w = False"
| "DeepEqual_all [] ws = (case ws of [] \<Rightarrow> True | _ \<Rightarrow> False)"
| "DeepEqual_all (x # xs) ws = (case ws of [] \<Rightarrow> False | y # ys \<Rightarrow> DeepEqual x y \<and> DeepEqual_all xs ys)"

text \<open>
  Payloads in which no NaN and no func other than nil is reached without passing a
  pointer.
\<close>

fun reflexive_payload :: "gvalue \<Rightarrow> bool" where
  "reflexive_payload (GFloat64 w) = (\<not> float64_NaN w)"
| "reflexive_payload (GArray xs) = list_all reflexive_payload xs"
| "reflexive_payload (GStruct xs) = list_all reflexive_payload xs"
| "reflexive_payload (GFunc f) = False"
| "reflexive_payload _ = True"

subsection \<open>Values of database/sql/driver and the default parameter converter\<close>

text \<open>
  A \<^verbatim>\<open>driver.Value\<close> is nil or one of \<^verbatim>\<open>int64, float64, bool, []byte, string, time.Time\<close>;
  this universe keeps \<^verbatim>\<open>bool\<close> and \<^verbatim>\<open>int64\<close>. A source is such a value already, or an
  \<^verbatim>\<open>int32\<close>, a \<^verbatim>\<open>uint64\<close>, a pointer (nil or not) or a \<^verbatim>\<open>chan int\<close>.
  \<^verbatim>\<open>DefaultParameterConverter.ConvertValue\<close> returns a value for which \<^verbatim>\<open>IsValue\<close> holds
  as it is (nil included), returns nil for a nil pointer and converts what a pointer
  points at otherwise, widens the signed integers to \<^verbatim>\<open>int64\<close>, refuses a \<^verbatim>\<open>uint64\<close> with
  the high bit set, and refuses the kinds it does not know.
\<close>

datatype driver_value = DvBool bool | DvInt64 "64 word"

datatype source_value =
    SrcValue driver_value
  | SrcInt32 "32 word"
  | SrcUint64 "64 word"
  | SrcNilPointer
  | SrcPointer source_value
  | SrcChan

fun ConvertValue_source :: "source_value \<Rightarrow> error + driver_value any" where
  "ConvertValue_source (SrcValue d) = Inr (AnyVal d)"
| "ConvertValue_source (SrcInt32 w) = Inr (AnyVal (DvInt64 (scast w)))"
| "ConvertValue_source (SrcUint64 u) =
     (if 2 ^ 63 \<le> unat u then Inl (Foreign ''uint64 values with high bit set are not supported'')
      else Inr (AnyVal (DvInt64 u)))"
| "ConvertValue_source SrcNilPointer = Inr AnyNil"
| "ConvertValue_source (SrcPointer v) = ConvertValue_source v"
| "ConvertValue_source SrcChan = Inl (Foreign ''unsupported type chan int, a chan'')"

definition ConvertValue_default :: "source_value any \<Rightarrow> error + driver_value any" where
  "ConvertValue_default src =
     (case src of AnyNil \<Rightarrow> Inr AnyNil | AnyVal v \<Rightarrow> ConvertValue_source v)"

text \<open>The assertions \<^verbatim>\<open>av.(int64)\<close> and \<^verbatim>\<open>av.(bool)\<close> on a dynamic value.\<close>

definition assert_int64 :: "driver_value \<Rightarrow> 64 word option" where
  "assert_int64 d = (case d of DvInt64 w \<Rightarrow> Some w | DvBool b \<Rightarrow> None)"

definition assert_bool :: "driver_value \<Rightarrow> bool option" where
  "assert_bool d = (case d of DvBool b \<Rightarrow> Some b | DvInt64 w \<Rightarrow> None)"

text \<open>
  The verb \<^verbatim>\<open>%#v\<close> on these values: \<^verbatim>\<open><nil>\<close>, \<^verbatim>\<open>true\<close> or \<^verbatim>\<open>false\<close>, and a signed
  integer in decimal. The verb \<^verbatim>\<open>%T\<close> on an \<^verbatim>\<open>int64\<close> and on a \<^verbatim>\<open>bool\<close>.
\<close>

function decimal_nat :: "nat \<Rightarrow> string" where
  "decimal_nat n =
     (if n < 10 then [''0123456789'' ! n]
      else decimal_nat (n div 10) @ [''0123456789'' ! (n mod 10)])"
  by pat_completeness auto
termination
  by (relation "measure (\<lambda>n. n)") auto

definition decimal_int :: "int \<Rightarrow> string" where
  "decimal_int i = (if i < 0 then CHR ''-'' # decimal_nat (nat (- i)) else decimal_nat (nat i))"

definition gofmt_driver :: "driver_value any \<Rightarrow> string" where
  "gofmt_driver av =
     (case av of
        AnyNil \<Rightarrow> ''<nil>''
      | AnyVal (DvBool b) \<Rightarrow> (if b then ''true'' else ''false'')
      | AnyVal (DvInt64 w) \<Rightarrow> decimal_int (sint w))"

definition fmtT_int64 :: "64 word \<Rightarrow> string" where
  "fmtT_int64 v = ''int64''"

definition fmtT_bool :: "bool \<Rightarrow> string" where
  "fmtT_bool v = ''bool''"

subsection \<open>Interface types as payload\<close>

text \<open>
  When \<open>T\<close> is an interface type the stored value is the nil interface or a dynamic
  value. The verb \<^verbatim>\<open>%T\<close> prints the dynamic type of its operand and \<^verbatim>\<open><nil>\<close> for the nil
  interface; \<open>dynT\<close> names the type of a dynamic value. \<open>driver_type\<close> is \<open>dynT\<close> on the
  driver values, and \<open>assert_any\<close> the assertion \<^verbatim>\<open>av.(any)\<close> on a value that is not nil,
  which holds for every dynamic type.
\<close>

definition fmtT_interface :: "('v \<Rightarrow> string) \<Rightarrow> 'v any \<Rightarrow> string" where
  "fmtT_interface dynT x = (case x of AnyNil \<Rightarrow> ''<nil>'' | AnyVal d \<Rightarrow> dynT d)"

definition driver_type :: "driver_value \<Rightarrow> string" where
  "driver_type d = (case d of DvBool b \<Rightarrow> ''bool'' | DvInt64 w \<Rightarrow> ''int64'')"

definition assert_any :: "'w \<Rightarrow> 'w any option" where
  "assert_any d = Some (AnyVal d)"

text \<open>
  \<^verbatim>\<open>type Flag bool\<close> with a method \<^verbatim>\<open>String() string\<close>, in package main, is a dynamic type
  of the interface \<^verbatim>\<open>fmt.Stringer\<close>. encoding/json stores into an interface value only
  when the interface has no method: into a nil \<^verbatim>\<open>fmt.Stringer\<close> the literal \<^verbatim>\<open>null\<close>
  decodes (the value stays nil) and every other input is an error.
\<close>

datatype flag = Flag bool

definition flag_type :: "flag \<Rightarrow> string" where
  "flag_type d = ''main.Flag''"

definition unmarshal_Stringer :: "string \<Rightarrow> error + flag any" where
  "unmarshal_Stringer bytes = (if json_null bytes then Inr AnyNil else Inl json_failed)"

subsection \<open>Functions given to \<open>Map\<close>\<close>

text \<open>
  \<^verbatim>\<open>func(s string) int { calls++; return len(s) }\<close> with the counter as the state, and a
  function that panics on every argument.
\<close>

definition counted_len :: "string \<Rightarrow> nat \<Rightarrow> (int \<times> nat) option" where
  "counted_len v calls = Some (int (length v), Suc calls)"

definition always_panics :: "string \<Rightarrow> nat \<Rightarrow> (int \<times> nat) option" where
  "always_panics v calls = None"

section \<open>Auxiliary facts\<close>

lemma json_null_literal: "json_null ''null''"
  by (simp add: json_null_def json_trim_def json_space_def)

text \<open>The decoder of \<^verbatim>\<open>[]bool\<close> inverts the encoder on every slice that is not nil.\<close>

lemma split_commas_piece:
  "CHR '','' \<notin> set w \<Longrightarrow> split_commas acc w = [rev acc @ w]"
  by (induction w arbitrary: acc) auto

lemma split_commas_append:
  "CHR '','' \<notin> set w \<Longrightarrow>
     split_commas acc (w @ CHR '','' # rest) = (rev acc @ w) # split_commas [] rest"
  by (induction w arbitrary: acc) auto

lemma split_commas_join:
  "ws \<noteq> [] \<Longrightarrow> \<forall>w \<in> set ws. CHR '','' \<notin> set w \<Longrightarrow>
     split_commas [] (join_commas ws) = ws"
proof (induction ws rule: join_commas.induct)
  case 1
  then show ?case by simp
next
  case (2 x)
  then show ?case by (simp add: split_commas_piece)
next
  case (3 x y ys)
  then show ?case using split_commas_append[of x "[]" "join_commas (y # ys)"] by simp
qed

lemma marshal_bool_no_comma: "CHR '','' \<notin> set (marshal_bool b)"
  by (simp add: marshal_bool_def)

lemma unmarshal_marshal_bool: "unmarshal_bool_element (marshal_bool b) = Some b"
  by (simp add: unmarshal_bool_element_def marshal_bool_def json_trim_def json_space_def)

lemma those_map_Some: "those (map (\<lambda>x. Some (g x)) xs) = Some (map g xs)"
  by (induction xs) auto

lemma join_commas_empty: "join_commas (map marshal_bool bs) = [] \<longleftrightarrow> bs = []"
  by (induction bs rule: induct_list012) (auto simp: marshal_bool_def)

lemma join_commas_head:
  "bs \<noteq> [] \<Longrightarrow> \<not> json_space (hd (join_commas (map marshal_bool bs)))"
  by (induction bs rule: induct_list012) (auto simp: marshal_bool_def json_space_def)

lemma join_commas_last:
  "bs \<noteq> [] \<Longrightarrow> \<not> json_space (last (join_commas (map marshal_bool bs)))"
  by (induction bs rule: induct_list012) (auto simp: marshal_bool_def json_space_def join_commas_empty)

lemma dropWhile_keeps:
  "xs \<noteq> [] \<Longrightarrow> \<not> P (hd xs) \<Longrightarrow> dropWhile P xs = xs"
  by (cases xs) auto

lemma json_trim_id:
  assumes "s \<noteq> []" "\<not> json_space (hd s)" "\<not> json_space (last s)"
  shows "json_trim s = s"
proof -
  have "dropWhile json_space s = s"
    using assms(1,2) by (rule dropWhile_keeps)
  moreover have "dropWhile json_space (rev s) = rev s"
    using assms(1,3) by (intro dropWhile_keeps) (auto simp: hd_rev)
  ultimately show ?thesis by (simp add: json_trim_def)
qed

lemma bools_round_trip:
  "unmarshal_bools (''['' @ join_commas (map marshal_bool bs) @ '']'') = Inr (Slice bs)"
proof -
  let ?J = "join_commas (map marshal_bool bs)"
  let ?t = "''['' @ ?J @ '']''"
  have t: "json_trim ?t = ?t"
    by (rule json_trim_id) (simp_all add: json_space_def)
  show ?thesis
  proof (cases "bs = []")
    case True
    then show ?thesis using t by (simp add: unmarshal_bools_def json_trim_def)
  next
    case False
    then have J: "json_trim ?J = ?J"
      using join_commas_head join_commas_last join_commas_empty by (intro json_trim_id) auto
    have s: "split_commas [] ?J = map marshal_bool bs"
      using False by (intro split_commas_join) (auto simp: marshal_bool_no_comma)
    have th: "those (map unmarshal_bool_element (map marshal_bool bs)) = Some bs"
      using those_map_Some[of id bs] by (simp add: o_def unmarshal_marshal_bool)
    show ?thesis
      using False t J s th join_commas_empty[of bs]
      by (simp add: unmarshal_bools_def Let_def butlast_append)
  qed
qed

lemma json_null_brackets: "\<not> json_null (''['' @ s @ '']'')"
proof -
  have "json_trim (''['' @ s @ '']'') = ''['' @ s @ '']''"
    by (rule json_trim_id) (simp_all add: json_space_def)
  then show ?thesis by (simp add: json_null_def)
qed

text \<open>
  Every \<^verbatim>\<open>[]bool\<close> that is not nil survives the round trip through \<open>MarshalJSON\<close> and
  \<open>UnmarshalJSON\<close>, into any receiver.
\<close>

lemma Option_bools_round_trip:
  "MarshalJSON marshal_bools (New (Slice bs)) = Inr (''['' @ join_commas (map marshal_bool bs) @ '']'')
   \<and> UnmarshalJSON NilSlice fmtT_bools unmarshal_bools r
         (''['' @ join_commas (map marshal_bool bs) @ '']'') = (New (Slice bs), None)"
  using bools_round_trip[of bs] json_null_brackets[of "join_commas (map marshal_bool bs)"]
  by (simp add: MarshalJSON_def Pointer_def json_Marshal_pointer_def marshal_bools_def New_def
        UnmarshalJSON_def json_Unmarshal_pointer_def FromPointer_def)

lemma DeepEqual_all_list_all2: "DeepEqual_all xs ys = list_all2 DeepEqual xs ys"
proof (induction xs arbitrary: ys)
  case Nil
  then show ?case by (cases ys) simp_all
next
  case (Cons x xs)
  then show ?case by (cases ys) simp_all
qed

lemma DeepEqual_all_elements:
  "(\<And>x. x \<in> set xs \<Longrightarrow> DeepEqual x x) \<Longrightarrow> DeepEqual_all xs xs"
  by (induction xs) auto

lemma DeepEqual_reflexive: "reflexive_payload v \<Longrightarrow> DeepEqual v v"
proof (induction v)
  case (GFloat64 w)
  then show ?case by (simp add: float64_eq_def)
next
  case (GArray xs)
  then show ?case by (auto simp: list_all_iff intro: DeepEqual_all_elements)
next
  case (GStruct xs)
  then show ?case by (auto simp: list_all_iff intro: DeepEqual_all_elements)
qed simp_all

section \<open>The invariant (claim C1)\<close>

text \<open>
  Claim C1. An option built by \<open>New\<close>, \<open>None\<close>, \<open>FromPointer\<close>, \<open>FromTuple\<close> or \<open>Map\<close>
  satisfies the invariant: when it is absent it stores the zero value of its type. The
  two methods that assign to their receiver, \<open>UnmarshalJSON\<close> and \<open>Scan\<close>, leave a
  receiver that satisfies it whenever they return no error, whatever the receiver was;
  they keep the invariant when they fail, and so does a store through the pointer that
  \<open>Pointer\<close> returns. The other operations return no option and assign to none.
\<close>

theorem invariant_established_and_preserved:
  "invariant z (New v)
   \<and> invariant z (None_Option z)
   \<and> invariant z (FromPointer z ptr)
   \<and> invariant z (FromTuple z v p)
   \<and> (Map zB optA f s = Some (r, s') \<longrightarrow> invariant zB r)
   \<and> (snd (UnmarshalJSON z fmtT unmarshalT opt bytes) = None
        \<longrightarrow> invariant z (fst (UnmarshalJSON z fmtT unmarshalT opt bytes)))
   \<and> (snd (Scan z fmtT gofmt ConvertValue assertT opt src) = None
        \<longrightarrow> invariant z (fst (Scan z fmtT gofmt ConvertValue assertT opt src)))
   \<and> (invariant z opt \<longrightarrow> invariant z (fst (UnmarshalJSON z fmtT unmarshalT opt bytes)))
   \<and> (invariant z opt \<longrightarrow> invariant z (fst (Scan z fmtT gofmt ConvertValue assertT opt src)))
   \<and> (invariant z optP \<and> Pointer_store optP w = Some optP' \<longrightarrow> invariant z optP')"
  by (auto simp: invariant_def New_def None_Option_def FromPointer_def FromTuple_def Map_def
        UnmarshalJSON_def Scan_def Pointer_store_def
        split: option.splits sum.splits if_splits prod.splits)

text \<open>
  The invariant on the payload type \<^verbatim>\<open>bool\<close>: after a decode and a scan into a receiver
  that broke it, after a failed decode, after a failed scan and after a store through the
  pointer; and on the result of \<open>Map\<close>.
\<close>

theorem invariant_witness:
  "Map (0::int) (New ''hello'') counted_len 0 = Some (New 5, 1)
   \<and> invariant (0::int) (New 5)
   \<and> snd (UnmarshalJSON False fmtT_bool unmarshal_bool
             \<lparr>value = True, present = False\<rparr> ''null'') = None
   \<and> invariant False (fst (UnmarshalJSON False fmtT_bool unmarshal_bool
                               \<lparr>value = True, present = False\<rparr> ''null''))
   \<and> snd (Scan False fmtT_bool gofmt_driver ConvertValue_default assert_bool
             \<lparr>value = True, present = False\<rparr> AnyNil) = None
   \<and> invariant False (fst (Scan False fmtT_bool gofmt_driver ConvertValue_default assert_bool
                               \<lparr>value = True, present = False\<rparr> AnyNil))
   \<and> invariant False (None_Option False)
   \<and> invariant False (fst (UnmarshalJSON False fmtT_bool unmarshal_bool (None_Option False) ''tru''))
   \<and> invariant False (fst (Scan False fmtT_bool gofmt_driver ConvertValue_default assert_bool
                               (None_Option False) (AnyVal SrcChan)))
   \<and> invariant False (New True)
   \<and> Pointer_store (New True) False = Some (New False)
   \<and> invariant False (New False)"
proof -
  have i: "invariant False (None_Option False)" by (simp add: invariant_def None_Option_def)
  have m: "Map (0::int) (New ''hello'') counted_len 0 = Some (New 5, 1)"
    by (simp add: Map_def New_def counted_len_def)
  have p: "Pointer_store (New True) False = Some (New False)"
    by (simp add: Pointer_store_def New_def)
  have j: "invariant False (New True)" by (simp add: invariant_def New_def)
  have u: "snd (UnmarshalJSON False fmtT_bool unmarshal_bool
                  \<lparr>value = True, present = False\<rparr> ''null'') = None"
    using json_null_literal by (simp add: UnmarshalJSON_def json_Unmarshal_pointer_def)
  have c: "snd (Scan False fmtT_bool gofmt_driver ConvertValue_default assert_bool
                  \<lparr>value = True, present = False\<rparr> AnyNil) = None"
    by (simp add: Scan_def)
  from invariant_established_and_preserved[where z = False and zB = "0::int"
      and optA = "New ''hello''" and f = counted_len and s = 0 and r = "New 5" and s' = 1
      and opt = "None_Option False" and fmtT = fmtT_bool and unmarshalT = unmarshal_bool
      and bytes = "''tru''" and gofmt = gofmt_driver and ConvertValue = ConvertValue_default
      and assertT = assert_bool and src = "AnyVal SrcChan"
      and optP = "New True" and w = False and optP' = "New False"]
    invariant_established_and_preserved[where z = False and zB = "0::int"
      and optA = "New ''hello''" and f = counted_len and s = 0 and r = "New 5" and s' = 1
      and opt = "\<lparr>value = True, present = False\<rparr>" and fmtT = fmtT_bool
      and unmarshalT = unmarshal_bool and bytes = "''null''" and gofmt = gofmt_driver
      and ConvertValue = ConvertValue_default and assertT = assert_bool and src = AnyNil
      and optP = "New True" and w = False and optP' = "New False"]
  show ?thesis using i m p j u c by blast
qed

section \<open>Extraction (claims C2 and C5)\<close>

text \<open>
  Claim C2. The options that satisfy the invariant are the validly constructed ones:
  \<open>None\<close> and \<open>New v\<close> for every \<open>v\<close>. On each of them \<open>UnwrapOrZero\<close> returns the
  wrapped value when the option is present and the zero value of \<open>T\<close> when it is absent.
  It has no failing branch: it is a total function of the option.
\<close>

theorem UnwrapOrZero_value_or_zero:
  "(invariant z opt \<longleftrightarrow> opt = None_Option z \<or> (\<exists>v. opt = New v))
   \<and> (invariant z opt \<longrightarrow> UnwrapOrZero opt = (if present opt then value opt else z))
   \<and> UnwrapOrZero (New v) = v
   \<and> UnwrapOrZero (None_Option z) = z"
  by (cases opt) (auto simp: UnwrapOrZero_def New_def None_Option_def invariant_def)

text \<open>The example of the tests: 42 from \<^verbatim>\<open>New(42)\<close> and 0 from \<^verbatim>\<open>None[int64]()\<close>.\<close>

theorem UnwrapOrZero_witness:
  "UnwrapOrZero (New (42::64 word)) = 42
   \<and> invariant (0::64 word) (None_Option 0)
   \<and> \<not> present (None_Option (0::64 word))
   \<and> UnwrapOrZero (None_Option (0::64 word)) = 0"
proof -
  have n: "\<not> present (None_Option (0::64 word))" by (simp add: None_Option_def)
  from UnwrapOrZero_value_or_zero[of 0 "None_Option (0::64 word)" 42] n
  show ?thesis by blast
qed

text \<open>
  Claim C5. \<open>Unwrap\<close> returns \<open>v\<close> on \<open>New v\<close>, and the stored value on every present
  option; on an absent option it panics with the error the source formats, and returns no
  value.
\<close>

theorem Unwrap_returns_or_panics:
  "Unwrap fmtT (New v) = Inr v
   \<and> (present opt \<longrightarrow> Unwrap fmtT opt = Inr (value opt))
   \<and> (\<not> present opt \<longrightarrow>
        Unwrap fmtT opt
          = Inl (Panic (Errorf (''Option['' @ fmtT (value opt) @ ''].Unwrap: unwrapping None value'')))
        \<and> (\<forall>r. Unwrap fmtT opt \<noteq> Inr r))"
  by (simp add: Unwrap_def New_def)

text \<open>\<open>Unwrap\<close> on \<^verbatim>\<open>New(int64(42))\<close> and on \<^verbatim>\<open>None[int64]()\<close>.\<close>

theorem Unwrap_witness:
  "Unwrap fmtT_int64 (New 42) = Inr 42
   \<and> \<not> present (None_Option (0::64 word))
   \<and> Unwrap fmtT_int64 (None_Option 0)
        = Inl (Panic (Errorf ''Option[int64].Unwrap: unwrapping None value''))"
  using Unwrap_returns_or_panics[of fmtT_int64 42 "None_Option 0"]
  by (simp add: None_Option_def fmtT_int64_def)

section \<open>The short circuit of Map (claim C9)\<close>

text \<open>
  Claim C9. On an absent option \<open>Map\<close> returns the absent option of the result type and
  leaves the state of the program as it was, whatever \<open>f\<close> is, also an \<open>f\<close> that changes
  the state or panics on every argument: \<open>f\<close> is not called. On \<open>New v\<close> it returns
  \<open>New\<close> of the value \<open>f\<close> returns for \<open>v\<close>, with the state \<open>f\<close> left, and it does not
  return when \<open>f\<close> does not.
\<close>

theorem Map_short_circuit:
  "(\<not> present opt \<longrightarrow> Map zB opt f s = Some (None_Option zB, s))
   \<and> (f v s = Some (b, s') \<longrightarrow> Map zB (New v) f s = Some (New b, s'))
   \<and> (f v s = None \<longrightarrow> Map zB (New v) f s = None)"
  by (simp add: Map_def New_def)

text \<open>
  With a function that counts its calls the counter stays 0 on the absent option and is 1
  after \<^verbatim>\<open>Map(New("hello"), f)\<close>; with a function that always panics \<open>Map\<close> still
  returns on the absent option.
\<close>

theorem Map_witness:
  "\<not> present (None_Option [])
   \<and> Map (0::int) (None_Option []) always_panics 0 = Some (None_Option 0, 0)
   \<and> Map (0::int) (None_Option []) counted_len 0 = Some (None_Option 0, 0)
   \<and> counted_len ''hello'' 0 = Some (5, 1)
   \<and> Map (0::int) (New ''hello'') counted_len 0 = Some (New 5, 1)
   \<and> always_panics ''hello'' 0 = None
   \<and> Map (0::int) (New ''hello'') always_panics 0 = None"
  using Map_short_circuit[of "None_Option []" "0::int" always_panics 0 "''hello''" 5 1]
    Map_short_circuit[of "None_Option []" "0::int" counted_len 0 "''hello''" 5 1]
  by (simp add: None_Option_def counted_len_def always_panics_def)

section \<open>What Equal decides (claims C3 and C4)\<close>

text \<open>
  Claim C3. \<open>Equal\<close> is true on two absent options and false when exactly one of the two
  is present; on two present options it is \<^verbatim>\<open>reflect.DeepEqual\<close> of the two payloads. On
  the universe of values above that follows pointers (two pointers are equal when they
  are the same or point to deeply equal values) and compares arrays and structs element
  by element, with \<open>DeepEqual\<close> again on the elements.
\<close>

theorem Equal_cases:
  "(\<not> present a \<and> \<not> present b \<longrightarrow> Equal deq a b)
   \<and> (present a \<noteq> present b \<longrightarrow> \<not> Equal deq a b)
   \<and> (present a \<and> present b \<longrightarrow> Equal deq a b = deq (value a) (value b))
   \<and> Equal DeepEqual (New (GPointer p x)) (New (GPointer q y)) = (p = q \<or> DeepEqual x y)
   \<and> Equal DeepEqual (New (GArray xs)) (New (GArray ys)) = list_all2 DeepEqual xs ys
   \<and> Equal DeepEqual (New (GStruct xs)) (New (GStruct ys)) = list_all2 DeepEqual xs ys"
  by (simp add: Equal_def New_def DeepEqual_all_list_all2)

text \<open>
  Two distinct pointers to structs that hold equal fields behind a further pointer are
  equal, a differing nested field makes them unequal; present and absent differ; absent
  and absent are equal.
\<close>

theorem Equal_cases_witness:
  "present (New (GPointer 1 (GStruct [GString ''test'', GPointer 2 (GStruct [GString ''test''])])))
   \<and> Equal DeepEqual
        (New (GPointer 1 (GStruct [GString ''test'', GPointer 2 (GStruct [GString ''test''])])))
        (New (GPointer 3 (GStruct [GString ''test'', GPointer 4 (GStruct [GString ''test''])])))
   \<and> \<not> Equal DeepEqual
        (New (GPointer 1 (GStruct [GString ''test'', GPointer 2 (GStruct [GString ''test''])])))
        (New (GPointer 3 (GStruct [GString ''test'', GPointer 4 (GStruct [GString ''test2''])])))
   \<and> \<not> present (None_Option (GFloat64 0))
   \<and> \<not> Equal DeepEqual (New (GFloat64 0)) (None_Option (GFloat64 0))
   \<and> Equal DeepEqual (None_Option (GFloat64 0)) (None_Option (GFloat64 0))"
  using
    Equal_cases[where a = "New (GPointer 1 (GStruct [GString ''test'', GPointer 2 (GStruct [GString ''test''])]))"
      and b = "New (GPointer 3 (GStruct [GString ''test'', GPointer 4 (GStruct [GString ''test''])]))"
      and deq = DeepEqual and p = 1 and q = 3
      and x = "GStruct [GString ''test'', GPointer 2 (GStruct [GString ''test''])]"
      and y = "GStruct [GString ''test'', GPointer 4 (GStruct [GString ''test''])]"
      and xs = "[GString ''test'', GPointer 2 (GStruct [GString ''test''])]"
      and ys = "[GString ''test'', GPointer 4 (GStruct [GString ''test''])]"]
    Equal_cases[where a = "New (GPointer 1 (GStruct [GString ''test'', GPointer 2 (GStruct [GString ''test''])]))"
      and b = "New (GPointer 3 (GStruct [GString ''test'', GPointer 4 (GStruct [GString ''test2''])]))"
      and deq = DeepEqual and p = 1 and q = 3
      and x = "GStruct [GString ''test'', GPointer 2 (GStruct [GString ''test''])]"
      and y = "GStruct [GString ''test'', GPointer 4 (GStruct [GString ''test2''])]"
      and xs = "[GString ''test'', GPointer 2 (GStruct [GString ''test''])]"
      and ys = "[GString ''test'', GPointer 4 (GStruct [GString ''test2''])]"]
    Equal_cases[where a = "New (GFloat64 0)" and b = "None_Option (GFloat64 0)" and deq = DeepEqual
      and p = 1 and q = 3 and x = GNilPointer and y = GNilPointer and xs = "[]" and ys = "[]"]
    Equal_cases[where a = "None_Option (GFloat64 0)" and b = "None_Option (GFloat64 0)"
      and deq = DeepEqual
      and p = 1 and q = 3 and x = GNilPointer and y = GNilPointer and xs = "[]" and ys = "[]"]
  by (simp add: New_def None_Option_def)

text \<open>
  \<open>Equal\<close> is not reflexive on every payload: \<^verbatim>\<open>0x7FF8000000000000\<close> is a NaN, and the
  option that holds it is not equal to itself.
\<close>

theorem Equal_NaN_not_reflexive:
  "float64_NaN 0x7FF8000000000000
   \<and> \<not> Equal DeepEqual (New (GFloat64 0x7FF8000000000000)) (New (GFloat64 0x7FF8000000000000))"
  by (simp add: Equal_def New_def float64_eq_def float64_NaN_def)

text \<open>
  Claim C4, amended. \<open>x.Equal(x)\<close> holds exactly when \<open>x\<close> is absent or its payload is
  deeply equal to itself, which every payload is in which no NaN and no func other than
  nil is reached without passing a pointer. A present and an absent option are unequal in
  both orders.
\<close>

theorem Equal_reflexive_when_payload_is:
  "(Equal deq x x \<longleftrightarrow> (present x \<longrightarrow> deq (value x) (value x)))
   \<and> (reflexive_payload g \<longrightarrow> Equal DeepEqual (New g) (New g))
   \<and> \<not> Equal deq (New v) (None_Option z)
   \<and> \<not> Equal deq (None_Option z) (New v)"
  using DeepEqual_reflexive[of g] by (auto simp: Equal_def New_def None_Option_def)

text \<open>
  A struct of the float 1.0, a nil func and a pointer to a NaN is equal to itself; the
  absent option is equal to itself; a present and an absent option differ in both orders.
\<close>

theorem Equal_reflexive_witness:
  "reflexive_payload (GStruct [GFloat64 0x3FF0000000000000, GNilFunc, GPointer 7 (GFloat64 0x7FF8000000000000)])
   \<and> Equal DeepEqual
       (New (GStruct [GFloat64 0x3FF0000000000000, GNilFunc, GPointer 7 (GFloat64 0x7FF8000000000000)]))
       (New (GStruct [GFloat64 0x3FF0000000000000, GNilFunc, GPointer 7 (GFloat64 0x7FF8000000000000)]))
   \<and> Equal DeepEqual (None_Option (GFloat64 0)) (None_Option (GFloat64 0))
   \<and> \<not> Equal DeepEqual (New (GFloat64 0x7FF8000000000000)) (None_Option (GFloat64 0))
   \<and> \<not> Equal DeepEqual (None_Option (GFloat64 0)) (New (GFloat64 0x7FF8000000000000))"
proof -
  have r: "reflexive_payload (GStruct [GFloat64 0x3FF0000000000000, GNilFunc, GPointer 7 (GFloat64 0x7FF8000000000000)])"
    by (simp add: float64_NaN_def)
  from Equal_reflexive_when_payload_is[of DeepEqual "None_Option (GFloat64 0)"
      "GStruct [GFloat64 0x3FF0000000000000, GNilFunc, GPointer 7 (GFloat64 0x7FF8000000000000)]"
      "GFloat64 0x7FF8000000000000" "GFloat64 0"] r
  show ?thesis by (simp add: None_Option_def)
qed

section \<open>The JSON adapter (claims C6 and C7)\<close>

text \<open>
  The round trip loses a present payload whose own JSON form is \<^verbatim>\<open>null\<close>: the present
  option of the nil \<^verbatim>\<open>[]bool\<close> marshals to \<^verbatim>\<open>null\<close>, which unmarshals to the absent option,
  and the two are not equal.
\<close>

theorem JSON_null_payload_not_restored:
  "MarshalJSON marshal_bools (New NilSlice) = Inr ''null''
   \<and> UnmarshalJSON NilSlice fmtT_bools unmarshal_bools (None_Option NilSlice) ''null''
        = (None_Option NilSlice, None)
   \<and> \<not> Equal DeepEqual_bools (None_Option NilSlice) (New NilSlice)"
  by (simp add: MarshalJSON_def Pointer_def json_Marshal_pointer_def marshal_bools_def New_def
        UnmarshalJSON_def json_Unmarshal_pointer_def json_null_literal
        FromPointer_def None_Option_def Equal_def)

text \<open>
  Claim C6, amended. Marshaling an option and unmarshaling the bytes into any receiver
  succeeds and gives an option equal to the first one when that is absent, and when it is
  present with a payload whose own JSON form is not the literal \<^verbatim>\<open>null\<close> and decodes to a
  value deeply equal to the payload.
\<close>

theorem JSON_round_trip:
  assumes "present x \<longrightarrow>
             (\<exists>bs v'. marshalT (value x) = Inr bs \<and> \<not> json_null bs
                      \<and> unmarshalT bs = Inr v' \<and> deq v' (value x))"
  shows "\<exists>bs y. MarshalJSON marshalT x = Inr bs
               \<and> UnmarshalJSON z fmtT unmarshalT r bs = (y, None)
               \<and> Equal deq y x"
proof (cases "present x")
  case True
  with assms obtain bs v' where h: "marshalT (value x) = Inr bs" "\<not> json_null bs"
    "unmarshalT bs = Inr v'" "deq v' (value x)" by blast
  have "MarshalJSON marshalT x = Inr bs"
    using True h(1) by (simp add: MarshalJSON_def Pointer_def json_Marshal_pointer_def)
  moreover have "UnmarshalJSON z fmtT unmarshalT r bs = (New v', None)"
    using h(2,3) by (simp add: UnmarshalJSON_def json_Unmarshal_pointer_def FromPointer_def)
  moreover have "Equal deq (New v') x"
    using True h(4) by (simp add: Equal_def New_def)
  ultimately show ?thesis by blast
next
  case False
  have "MarshalJSON marshalT x = Inr ''null''"
    using False by (simp add: MarshalJSON_def Pointer_def json_Marshal_pointer_def)
  moreover have "UnmarshalJSON z fmtT unmarshalT r ''null'' = (None_Option z, None)"
    using json_null_literal
    by (simp add: UnmarshalJSON_def json_Unmarshal_pointer_def FromPointer_def)
  moreover have "Equal deq (None_Option z) x"
    using False by (simp add: Equal_def None_Option_def)
  ultimately show ?thesis by blast
qed

lemma bools_examples:
  "marshal_bools (Slice [True, False]) = Inr ''[true,false]''"
  "unmarshal_bools ''[true,false]'' = Inr (Slice [True, False])"
  "\<not> json_null ''[true,false]''"
  using bools_round_trip[of "[True, False]"] json_null_brackets[of "''true,false''"]
  by (simp_all add: marshal_bools_def marshal_bool_def)

text \<open>The round trip of \<^verbatim>\<open>New([]bool{true, false})\<close> through \<^verbatim>\<open>[true,false]\<close>.\<close>

theorem JSON_round_trip_witness:
  "(\<exists>bs y. MarshalJSON marshal_bools (New (Slice [True, False])) = Inr bs
          \<and> UnmarshalJSON NilSlice fmtT_bools unmarshal_bools (None_Option NilSlice) bs = (y, None)
          \<and> Equal DeepEqual_bools y (New (Slice [True, False])))
   \<and> MarshalJSON marshal_bools (New (Slice [True, False])) = Inr ''[true,false]''
   \<and> UnmarshalJSON NilSlice fmtT_bools unmarshal_bools (None_Option NilSlice) ''[true,false]''
        = (New (Slice [True, False]), None)"
proof -
  have h: "present (New (Slice [True, False])) \<longrightarrow>
             (\<exists>bs v'. marshal_bools (value (New (Slice [True, False]))) = Inr bs \<and> \<not> json_null bs
                      \<and> unmarshal_bools bs = Inr v'
                      \<and> DeepEqual_bools v' (value (New (Slice [True, False]))))"
    using bools_examples by (simp add: New_def DeepEqual_bools_def)
  have m: "MarshalJSON marshal_bools (New (Slice [True, False])) = Inr ''[true,false]''"
    using bools_examples
    by (simp add: MarshalJSON_def Pointer_def json_Marshal_pointer_def New_def)
  have u: "UnmarshalJSON NilSlice fmtT_bools unmarshal_bools (None_Option NilSlice) ''[true,false]''
             = (New (Slice [True, False]), None)"
    using bools_examples
    by (simp add: UnmarshalJSON_def json_Unmarshal_pointer_def FromPointer_def)
  from JSON_round_trip[where x = "New (Slice [True, False])" and marshalT = marshal_bools
      and unmarshalT = unmarshal_bools and deq = DeepEqual_bools and z = NilSlice
      and fmtT = fmtT_bools and r = "None_Option NilSlice", OF h] m u
  show ?thesis by blast
qed

text \<open>
  Every present payload whose own JSON form is the literal \<^verbatim>\<open>null\<close> marshals to it and
  unmarshals to the absent option, which is not equal to the option marshaled.
\<close>

lemma JSON_null_payload_becomes_absent:
  assumes "present x" "marshalT (value x) = Inr bs" "json_null bs"
  shows "MarshalJSON marshalT x = Inr bs
         \<and> UnmarshalJSON z fmtT unmarshalT r bs = (None_Option z, None)
         \<and> \<not> Equal deq (None_Option z) x"
  using assms
  by (simp add: MarshalJSON_def Pointer_def json_Marshal_pointer_def UnmarshalJSON_def
        json_Unmarshal_pointer_def FromPointer_def Equal_def None_Option_def)

text \<open>
  Claim C7. The error that \<open>UnmarshalJSON\<close> returns for input malformed for \<open>T\<close> is to
  carry a message that identifies the element type \<open>T\<close>. The source formats the message
  with the verb \<^verbatim>\<open>%T\<close> applied to \<^verbatim>\<open>o.value\<close>, which names \<open>T\<close> when \<open>T\<close> is not an interface
  type and misses when it is: the code run on two receivers of the one type
  \<^verbatim>\<open>Option[fmt.Stringer]\<close>, the absent one and the one that holds a \<^verbatim>\<open>Flag\<close>, with the same
  input, gives the tags \<^verbatim>\<open>Option[<nil>]\<close> and \<^verbatim>\<open>Option[main.Flag]\<close>. Neither names
  \<^verbatim>\<open>fmt.Stringer\<close>, and the two differ. Here the code departs from the claim.
\<close>

theorem UnmarshalJSON_type_tag_is_of_stored_value:
  "UnmarshalJSON AnyNil (fmtT_interface flag_type) unmarshal_Stringer (None_Option AnyNil) ''true''
     = (None_Option AnyNil, Some (Wrapf ''Option[<nil>].UnmarshalJSON: '' json_failed))
   \<and> UnmarshalJSON AnyNil (fmtT_interface flag_type) unmarshal_Stringer (New (AnyVal (Flag True))) ''true''
     = (New (AnyVal (Flag True)), Some (Wrapf ''Option[main.Flag].UnmarshalJSON: '' json_failed))
   \<and> error_Error (Wrapf ''Option[<nil>].UnmarshalJSON: '' json_failed)
     \<noteq> error_Error (Wrapf ''Option[main.Flag].UnmarshalJSON: '' json_failed)"
  by (simp add: UnmarshalJSON_def json_Unmarshal_pointer_def unmarshal_Stringer_def
        json_null_def json_trim_def json_space_def fmtT_interface_def flag_type_def
        None_Option_def New_def)

text \<open>
  The branches of \<open>UnmarshalJSON\<close>, for every \<open>T\<close>. The literal \<^verbatim>\<open>null\<close> (between optional
  white space) makes the receiver the absent option. Any other input that decodes as a
  \<open>T\<close> makes the receiver the present option of the decoded value. Any other input
  returns an error that wraps the decoder's error and leaves the receiver as it was; the
  source puts \<^verbatim>\<open>Option[%T].UnmarshalJSON: \<close> before the decoder's message, the verb applied
  to the stored value.
\<close>

theorem UnmarshalJSON_cases:
  "(json_null bytes \<longrightarrow> UnmarshalJSON z fmtT unmarshalT opt bytes = (None_Option z, None))
   \<and> (\<not> json_null bytes \<and> unmarshalT bytes = Inr v
        \<longrightarrow> UnmarshalJSON z fmtT unmarshalT opt bytes = (New v, None))
   \<and> (\<not> json_null bytes \<and> unmarshalT bytes = Inl err
        \<longrightarrow> (\<exists>e. UnmarshalJSON z fmtT unmarshalT opt bytes = (opt, Some e)
               \<and> errors_Unwrap e = Some err
               \<and> error_Error e
                   = ''Option['' @ fmtT (value opt) @ ''].UnmarshalJSON: '' @ error_Error err))"
  by (simp add: UnmarshalJSON_def json_Unmarshal_pointer_def FromPointer_def)

lemma unmarshal_bool_examples:
  "\<not> json_null ''true''" "unmarshal_bool ''true'' = Inr True"
  "\<not> json_null ''tru''" "unmarshal_bool ''tru'' = Inl json_failed"
  by (simp_all add: json_null_def json_trim_def json_space_def unmarshal_bool_def
        unmarshal_bool_element_def)

text \<open>\<^verbatim>\<open>Option[bool]\<close>: the inputs \<^verbatim>\<open>null\<close>, \<^verbatim>\<open>true\<close> and \<^verbatim>\<open>tru\<close>.\<close>

theorem UnmarshalJSON_cases_witness:
  "json_null ''null''
   \<and> UnmarshalJSON False fmtT_bool unmarshal_bool (New True) ''null'' = (None_Option False, None)
   \<and> \<not> json_null ''true'' \<and> unmarshal_bool ''true'' = Inr True
   \<and> UnmarshalJSON False fmtT_bool unmarshal_bool (None_Option False) ''true'' = (New True, None)
   \<and> \<not> json_null ''tru'' \<and> unmarshal_bool ''tru'' = Inl json_failed
   \<and> (\<exists>e. UnmarshalJSON False fmtT_bool unmarshal_bool (New True) ''tru'' = (New True, Some e)
          \<and> errors_Unwrap e = Some json_failed
          \<and> error_Error e = ''Option[bool].UnmarshalJSON: '' @ error_Error json_failed)"
  using UnmarshalJSON_cases[of "''null''" False fmtT_bool unmarshal_bool "New True"]
    UnmarshalJSON_cases[of "''true''" False fmtT_bool unmarshal_bool "None_Option False" True]
    UnmarshalJSON_cases[of "''tru''" False fmtT_bool unmarshal_bool "New True" _ json_failed]
    json_null_literal unmarshal_bool_examples
  by (simp add: fmtT_bool_def)

section \<open>The SQL adapter (claim C8)\<close>

text \<open>
  Claim C8. The errors of \<open>Scan\<close> are to name the element type \<open>T\<close>: the conversion error
  as the type of the option, the cast error as the target of the cast. The source formats
  both with the verb \<^verbatim>\<open>%T\<close> applied to \<^verbatim>\<open>o.value\<close>, which names \<open>T\<close> when \<open>T\<close> is not an
  interface type and misses when it is: the code run on the absent \<^verbatim>\<open>Option[any]\<close> gives the
  conversion error of a channel under \<^verbatim>\<open>Option[<nil>]\<close> and the cast error of a nil pointer
  with \<^verbatim>\<open><nil>\<close> for the target type, and on the \<^verbatim>\<open>Option[any]\<close> that holds a bool the same
  cast error says \<^verbatim>\<open>to type bool\<close>, while the target is \<^verbatim>\<open>any\<close>. Here the code departs from
  the claim.
\<close>

theorem Scan_type_tag_is_of_stored_value:
  "Scan AnyNil (fmtT_interface driver_type) gofmt_driver ConvertValue_default assert_any
       (None_Option AnyNil) (AnyVal SrcChan)
     = (None_Option AnyNil,
        Some (Wrapf ''Option[<nil>].Scan: failed to convert value from SQL driver: ''
                (Foreign ''unsupported type chan int, a chan'')))
   \<and> Scan AnyNil (fmtT_interface driver_type) gofmt_driver ConvertValue_default assert_any
       (None_Option AnyNil) (AnyVal SrcNilPointer)
     = (None_Option AnyNil,
        Some (Errorf ''Option[<nil>].Scan: failed to convert value <nil> to type <nil>''))
   \<and> Scan AnyNil (fmtT_interface driver_type) gofmt_driver ConvertValue_default assert_any
       (New (AnyVal (DvBool True))) (AnyVal SrcNilPointer)
     = (New (AnyVal (DvBool True)),
        Some (Errorf ''Option[bool].Scan: failed to convert value <nil> to type bool''))"
  by (simp add: Scan_def ConvertValue_default_def type_assert_def fmtT_interface_def
        driver_type_def gofmt_driver_def None_Option_def New_def)

text \<open>
  The branches of \<open>Scan\<close>, for every \<open>T\<close>. The nil source makes the receiver the absent
  option and returns no error. Any other source is converted first: when the conversion
  fails, the error wraps the converter's and the receiver stays as it was; when the
  converted value does not assert to \<open>T\<close>, an error is returned whose message holds the
  converted value, and the receiver stays as it was; when it does, the receiver becomes
  the present option of the asserted value and no error is returned. The source writes
  the type into both messages with the verb \<^verbatim>\<open>%T\<close> applied to the stored value.
\<close>

theorem Scan_cases:
  "Scan z fmtT gofmt ConvertValue assertT opt AnyNil = (None_Option z, None)
   \<and> (src \<noteq> AnyNil \<and> ConvertValue src = Inr av \<and> type_assert assertT av = Some v
        \<longrightarrow> Scan z fmtT gofmt ConvertValue assertT opt src = (New v, None))
   \<and> (src \<noteq> AnyNil \<and> ConvertValue src = Inr av \<and> type_assert assertT av = None
        \<longrightarrow> Scan z fmtT gofmt ConvertValue assertT opt src =
              (opt, Some (Errorf (''Option['' @ fmtT (value opt)
                                   @ ''].Scan: failed to convert value '' @ gofmt av
                                   @ '' to type '' @ fmtT (value opt)))))
   \<and> (src \<noteq> AnyNil \<and> ConvertValue src = Inl err
        \<longrightarrow> (\<exists>e. Scan z fmtT gofmt ConvertValue assertT opt src = (opt, Some e)
               \<and> errors_Unwrap e = Some err
               \<and> error_Error e = ''Option['' @ fmtT (value opt)
                    @ ''].Scan: failed to convert value from SQL driver: '' @ error_Error err))"
  by (simp add: Scan_def)

lemma ConvertValue_examples:
  "ConvertValue_default (AnyVal (SrcInt32 3)) = Inr (AnyVal (DvInt64 3))"
  "type_assert assert_int64 (AnyVal (DvInt64 3)) = Some 3"
  "ConvertValue_default (AnyVal (SrcValue (DvBool True))) = Inr (AnyVal (DvBool True))"
  "type_assert assert_int64 (AnyVal (DvBool True)) = None"
  "ConvertValue_default (AnyVal (SrcUint64 0x8000000000000000))
     = Inl (Foreign ''uint64 values with high bit set are not supported'')"
  by (simp_all add: ConvertValue_default_def type_assert_def assert_int64_def)

text \<open>
  \<^verbatim>\<open>Option[int64]\<close>: the nil source, an \<^verbatim>\<open>int32\<close> (widened, then asserted), a \<^verbatim>\<open>bool\<close> (the
  assertion fails) and a \<^verbatim>\<open>uint64\<close> with the high bit set (the conversion fails).
\<close>

theorem Scan_cases_witness:
  "Scan 0 fmtT_int64 gofmt_driver ConvertValue_default assert_int64 (New 7) AnyNil
     = (None_Option 0, None)
   \<and> ConvertValue_default (AnyVal (SrcInt32 3)) = Inr (AnyVal (DvInt64 3))
   \<and> type_assert assert_int64 (AnyVal (DvInt64 3)) = Some 3
   \<and> Scan 0 fmtT_int64 gofmt_driver ConvertValue_default assert_int64 (None_Option 0)
        (AnyVal (SrcInt32 3)) = (New 3, None)
   \<and> ConvertValue_default (AnyVal (SrcValue (DvBool True))) = Inr (AnyVal (DvBool True))
   \<and> type_assert assert_int64 (AnyVal (DvBool True)) = None
   \<and> Scan 0 fmtT_int64 gofmt_driver ConvertValue_default assert_int64 (New 7)
        (AnyVal (SrcValue (DvBool True)))
       = (New 7, Some (Errorf ''Option[int64].Scan: failed to convert value true to type int64''))
   \<and> ConvertValue_default (AnyVal (SrcUint64 0x8000000000000000))
       = Inl (Foreign ''uint64 values with high bit set are not supported'')
   \<and> (\<exists>e. Scan 0 fmtT_int64 gofmt_driver ConvertValue_default assert_int64 (New 7)
             (AnyVal (SrcUint64 0x8000000000000000)) = (New 7, Some e)
          \<and> errors_Unwrap e = Some (Foreign ''uint64 values with high bit set are not supported'')
          \<and> error_Error e = ''Option[int64].Scan: failed to convert value from SQL driver: ''
               @ ''uint64 values with high bit set are not supported'')"
  using
    Scan_cases[of 0 fmtT_int64 gofmt_driver ConvertValue_default assert_int64 "New 7"
      "AnyVal (SrcInt32 3)" "AnyVal (DvInt64 3)" 3]
    Scan_cases[of 0 fmtT_int64 gofmt_driver ConvertValue_default assert_int64 "None_Option 0"
      "AnyVal (SrcInt32 3)" "AnyVal (DvInt64 3)" 3]
    Scan_cases[of 0 fmtT_int64 gofmt_driver ConvertValue_default assert_int64 "New 7"
      "AnyVal (SrcValue (DvBool True))" "AnyVal (DvBool True)"]
    Scan_cases[of 0 fmtT_int64 gofmt_driver ConvertValue_default assert_int64 "New 7"
      "AnyVal (SrcUint64 0x8000000000000000)" _ _
      "Foreign ''uint64 values with high bit set are not supported''"]
    ConvertValue_examples
  by (simp add: fmtT_int64_def gofmt_driver_def New_def)

section \<open>Errors leave the receiver as it was (claim C10)\<close>

text \<open>
  Claim C10. When \<open>UnmarshalJSON\<close> or \<open>Scan\<close> returns an error, the receiver after the
  call is the receiver before it.
\<close>

theorem error_leaves_receiver:
  "(snd (UnmarshalJSON z fmtT unmarshalT opt bytes) \<noteq> None
      \<longrightarrow> fst (UnmarshalJSON z fmtT unmarshalT opt bytes) = opt)
   \<and> (snd (Scan z fmtT gofmt ConvertValue assertT opt src) \<noteq> None
      \<longrightarrow> fst (Scan z fmtT gofmt ConvertValue assertT opt src) = opt)"
  by (auto simp: UnmarshalJSON_def Scan_def split: sum.splits option.splits)

text \<open>A failed decode and a failed scan into \<^verbatim>\<open>New(true)\<close>.\<close>

theorem error_leaves_receiver_witness:
  "snd (UnmarshalJSON False fmtT_bool unmarshal_bool (New True) ''tru'') \<noteq> None
   \<and> fst (UnmarshalJSON False fmtT_bool unmarshal_bool (New True) ''tru'') = New True
   \<and> snd (Scan False fmtT_bool gofmt_driver ConvertValue_default assert_bool (New True)
            (AnyVal (SrcInt32 3))) \<noteq> None
   \<and> fst (Scan False fmtT_bool gofmt_driver ConvertValue_default assert_bool (New True)
            (AnyVal (SrcInt32 3))) = New True"
proof -
  have u: "snd (UnmarshalJSON False fmtT_bool unmarshal_bool (New True) ''tru'') \<noteq> None"
    using unmarshal_bool_examples
    by (simp add: UnmarshalJSON_def json_Unmarshal_pointer_def)
  have s: "snd (Scan False fmtT_bool gofmt_driver ConvertValue_default assert_bool (New True)
                  (AnyVal (SrcInt32 3))) \<noteq> None"
    by (simp add: Scan_def ConvertValue_default_def type_assert_def assert_bool_def)
  from error_leaves_receiver[of False fmtT_bool unmarshal_bool "New True" "''tru''"
      gofmt_driver ConvertValue_default assert_bool "AnyVal (SrcInt32 3)"] u s
  show ?thesis by blast
qed

section \<open>Further properties of the operations\<close>

text \<open>
  The remaining operations read the option and return: \<open>IsNone\<close> negates \<open>IsPresent\<close>,
  \<open>UnwrapOr\<close> falls back to its argument, \<open>FromPointer\<close> and \<open>Pointer\<close> invert each other
  on the options that satisfy the invariant, and what \<open>Value\<close> binds scans back to the
  option whenever the converter returns the bound value as a value that asserts to \<open>T\<close>.
\<close>

lemma IsNone_not_IsPresent: "IsNone opt = (\<not> IsPresent opt)"
  by (simp add: IsNone_def IsPresent_def)

lemma IsPresent_constructors: "IsPresent (New v)" "\<not> IsPresent (None_Option z)"
  by (simp_all add: IsPresent_def New_def None_Option_def)

lemma UnwrapOr_constructors:
  "UnwrapOr (New v) d = v" "UnwrapOr (None_Option z) d = d"
  by (simp_all add: UnwrapOr_def New_def None_Option_def)

lemma Pointer_FromPointer: "Pointer (FromPointer z ptr) = ptr"
  by (cases ptr) (simp_all add: Pointer_def FromPointer_def New_def None_Option_def)

lemma FromPointer_Pointer: "invariant z opt \<Longrightarrow> FromPointer z (Pointer opt) = opt"
  by (cases opt) (auto simp: invariant_def Pointer_def FromPointer_def New_def None_Option_def)

lemma Pointer_func_Pointer: "Pointer_func opt = Pointer opt"
  by (simp add: Pointer_func_def)

lemma Value_then_Scan_absent:
  "\<not> present opt \<Longrightarrow>
     Value box opt = (AnyNil, None)
     \<and> Scan z fmtT gofmt ConvertValue assertT r (fst (Value box opt)) = (None_Option z, None)"
  by (simp add: Value_def Scan_def)

lemma Value_then_Scan_present:
  assumes "box v \<noteq> AnyNil" "ConvertValue (box v) = Inr av" "type_assert assertT av = Some v"
  shows "Scan z fmtT gofmt ConvertValue assertT r (fst (Value box (New v))) = (New v, None)"
  using assms by (simp add: Value_def Scan_def New_def)

lemma String_Option_absent: "String_Option sprint (None_Option z) = []"
  by (simp add: String_Option_def None_Option_def)

lemma GoString_constructors:
  "GoString gofmt fmtT (New v) = ''options.New('' @ gofmt v @ '')''"
  "GoString gofmt fmtT (None_Option z) = ''options.None['' @ fmtT z @ '']()''"
  by (simp_all add: GoString_def New_def None_Option_def)

end
